theory Spec2Isabelle
  imports Complex_Main
begin

section \<open>gcodeopt.py: segments of a G-code program\<close>

datatype py_error = TypeError | IndexError | StopIteration | OverflowError | ValueError

subsection \<open>Python floats\<close>

text \<open>
  A Python float is an IEEE double: a finite value, one of the two infinities, or a NaN.
  The value of a finite double is a real number. How the exact result of an operation is
  rounded to a double, or overflows to an infinity, belongs to the platform and is not
  fixed here: it is given by four functions, one for each operation the program uses.
  What the operations do with infinities and NaN, and where Python raises, is written
  out.
\<close>

datatype pyfloat = Finite real | PInf | NInf | NaN

record float_arith =
  round_sub :: "real \<Rightarrow> pyfloat"
  round_add :: "real \<Rightarrow> pyfloat"
  round_pow :: "real \<Rightarrow> pyfloat"
  round_sqrt :: "real \<Rightarrow> pyfloat"

text \<open>\<open>u - v\<close> and \<open>u + v\<close>: no exception; an overflow gives an infinity.\<close>

fun float_sub :: "float_arith \<Rightarrow> pyfloat \<Rightarrow> pyfloat \<Rightarrow> pyfloat" where
  "float_sub R NaN v = NaN"
| "float_sub R u NaN = NaN"
| "float_sub R (Finite a) (Finite b) = round_sub R (a - b)"
| "float_sub R (Finite a) PInf = NInf"
| "float_sub R (Finite a) NInf = PInf"
| "float_sub R PInf PInf = NaN"
| "float_sub R PInf v = PInf"
| "float_sub R NInf NInf = NaN"
| "float_sub R NInf v = NInf"

fun float_add :: "float_arith \<Rightarrow> pyfloat \<Rightarrow> pyfloat \<Rightarrow> pyfloat" where
  "float_add R NaN v = NaN"
| "float_add R u NaN = NaN"
| "float_add R (Finite a) (Finite b) = round_add R (a + b)"
| "float_add R (Finite a) v = v"
| "float_add R PInf NInf = NaN"
| "float_add R PInf v = PInf"
| "float_add R NInf PInf = NaN"
| "float_add R NInf v = NInf"

text \<open>
  \<open>u ** 2\<close>: the square of a finite float that is too large for a double raises
  \<open>OverflowError\<close>; the square of an infinity is the positive infinity and the square of
  a NaN is a NaN, without exception.
\<close>

fun float_pow2 :: "float_arith \<Rightarrow> pyfloat \<Rightarrow> py_error + pyfloat" where
  "float_pow2 R (Finite a) =
     (case round_pow R (a * a) of Finite r \<Rightarrow> Inr (Finite r) | _ \<Rightarrow> Inl OverflowError)"
| "float_pow2 R PInf = Inr PInf"
| "float_pow2 R NInf = Inr PInf"
| "float_pow2 R NaN = Inr NaN"

text \<open>
  \<open>math.sqrt\<close>: a negative argument raises \<open>ValueError\<close>, as does a result that is not
  finite for a finite argument; the positive infinity and a NaN are returned as they are.
\<close>

fun math_sqrt :: "float_arith \<Rightarrow> pyfloat \<Rightarrow> py_error + pyfloat" where
  "math_sqrt R (Finite a) =
     (if a < 0 then Inl ValueError
      else case round_sqrt R (sqrt a) of Finite r \<Rightarrow> Inr (Finite r) | _ \<Rightarrow> Inl ValueError)"
| "math_sqrt R PInf = Inr PInf"
| "math_sqrt R NInf = Inl ValueError"
| "math_sqrt R NaN = Inr NaN"

text \<open>
  \<open>int()\<close> on a float truncates towards zero; it raises \<open>OverflowError\<close> on an infinity
  and \<open>ValueError\<close> on a NaN.
\<close>

fun py_int :: "pyfloat \<Rightarrow> py_error + int" where
  "py_int (Finite r) = Inr (if r < 0 then \<lceil>r\<rceil> else \<lfloor>r\<rfloor>)"
| "py_int PInf = Inl OverflowError"
| "py_int NInf = Inl OverflowError"
| "py_int NaN = Inl ValueError"

type_synonym position = "pyfloat \<times> pyfloat"

subsection \<open>Lines and segments\<close>

text \<open>
  A parsed G-code line. Only the attributes the source reads are kept: the command word and
  the X and Y words, each absent (\<open>None\<close>) when the line does not carry it.
\<close>

record line =
  line_command :: string
  line_x :: "pyfloat option"
  line_y :: "pyfloat option"

definition is_g0 :: "line \<Rightarrow> bool" where
  "is_g0 l = (line_command l = ''G00'')"

definition not_g0 :: "line \<Rightarrow> bool" where
  "not_g0 l = (line_command l \<noteq> ''G00'')"

text \<open>
  \<open>more_itertools.split_when\<close>: the list is cut between two neighbours \<open>u\<close> and \<open>v\<close>
  exactly when \<open>pred u v\<close> holds; an empty list has no piece.
\<close>

fun split_when :: "('a \<Rightarrow> 'a \<Rightarrow> bool) \<Rightarrow> 'a list \<Rightarrow> 'a list list" where
  "split_when pred [] = []"
| "split_when pred [u] = [[u]]"
| "split_when pred (u # v # ws) =
     (if pred u v then [u] # split_when pred (v # ws)
      else case split_when pred (v # ws) of
             [] \<Rightarrow> [[u]]
           | piece # pieces \<Rightarrow> (u # piece) # pieces)"

text \<open>The module variable \<open>parts\<close>, as a function of \<open>pattern.lines\<close>.\<close>

definition parts_of :: "line list \<Rightarrow> line list list" where
  "parts_of pattern_lines = split_when (\<lambda>u v. not_g0 u \<and> is_g0 v) pattern_lines"

text \<open>
  The loop shared by \<open>Segment._startpos\<close> and \<open>Segment._endpos\<close>: both run the same
  body, the first over \<open>self.lines\<close> and the second over \<open>reversed(self.lines)\<close>.
  The arguments \<open>px\<close> and \<open>py\<close> are the loop variables \<open>x\<close> and \<open>y\<close>. Falling off the
  end of the loop returns \<open>None\<close>.
\<close>

fun scan_pos :: "pyfloat option \<Rightarrow> pyfloat option \<Rightarrow> line list \<Rightarrow> position option" where
  "scan_pos px py [] = None"
| "scan_pos px py (l # ls) =
     (let px' = (if px = None then line_x l else px);
          py' = (if py = None then line_y l else py)
      in case (px', py') of
           (Some a, Some b) \<Rightarrow> Some (a, b)
         | _ \<Rightarrow> scan_pos px' py' ls)"

definition Segment_startpos :: "line list \<Rightarrow> position option" where
  "Segment_startpos ls = scan_pos None None ls"

definition Segment_endpos :: "line list \<Rightarrow> position option" where
  "Segment_endpos ls = scan_pos None None (rev ls)"

record segment =
  seg_lines :: "line list"
  seg_startpos :: "position option"
  seg_endpos :: "position option"

definition Segment :: "line list \<Rightarrow> segment" where
  "Segment ls = \<lparr>seg_lines = ls, seg_startpos = Segment_startpos ls, seg_endpos = Segment_endpos ls\<rparr>"

text \<open>
  An element of the list \<open>segments\<close>: a \<open>Segment\<close> itself or a \<open>ReversedSegment\<close>
  wrapping it. Both classes expose \<open>lines\<close>, \<open>startpos\<close> and \<open>endpos\<close>.
\<close>

datatype oriented = Forward segment | ReversedSegment segment

fun lines :: "oriented \<Rightarrow> line list" where
  "lines (Forward s) = seg_lines s"
| "lines (ReversedSegment s) = rev (seg_lines s)"

fun startpos :: "oriented \<Rightarrow> position option" where
  "startpos (Forward s) = seg_startpos s"
| "startpos (ReversedSegment s) = seg_endpos s"

fun endpos :: "oriented \<Rightarrow> position option" where
  "endpos (Forward s) = seg_endpos s"
| "endpos (ReversedSegment s) = seg_startpos s"

text \<open>
  The module-level loop that fills \<open>segments\<close> from the parts that follow the preamble.
  A tuple is truthy and \<open>None\<close> is falsy, so \<open>seg.startpos and seg.endpos\<close> holds exactly
  when both are defined.
\<close>

fun segments :: "line list list \<Rightarrow> oriented list" where
  "segments [] = []"
| "segments (p # ps) =
     (let seg = Segment p
      in if seg_startpos seg \<noteq> None \<and> seg_endpos seg \<noteq> None
         then Forward seg # ReversedSegment seg # segments ps
         else segments ps)"

text \<open>
  What the module exposes after import: the first part as \<open>preamble\<close> and the list
  \<open>segments\<close>. \<open>next(parts)\<close> raises \<open>StopIteration\<close> when there is no part at all.
\<close>

record gcodeopt_module =
  preamble :: "line list"
  module_segments :: "oriented list"

definition gcodeopt :: "line list list \<Rightarrow> py_error + gcodeopt_module" where
  "gcodeopt parts =
     (case parts of
        [] \<Rightarrow> Inl StopIteration
      | pre # rest \<Rightarrow> Inr \<lparr>preamble = pre, module_segments = segments rest\<rparr>)"

text \<open>
  \<open>distance\<close>, in the order in which Python evaluates the expression: the first square,
  the second square, their sum, the square root.
\<close>

definition distance :: "float_arith \<Rightarrow> position \<Rightarrow> position \<Rightarrow> py_error + pyfloat" where
  "distance R a b =
     (case float_pow2 R (float_sub R (fst a) (fst b)) of
        Inl e \<Rightarrow> Inl e
      | Inr x2 \<Rightarrow>
          (case float_pow2 R (float_sub R (snd a) (snd b)) of
             Inl e \<Rightarrow> Inl e
           | Inr y2 \<Rightarrow> math_sqrt R (float_add R x2 y2)))"

section \<open>cvrp.py: the data model\<close>

text \<open>The expression \<open>int(gcodeopt.distance(a, b))\<close>.\<close>

definition int_distance :: "float_arith \<Rightarrow> position \<Rightarrow> position \<Rightarrow> py_error + int" where
  "int_distance R a b = (case distance R a b of Inl e \<Rightarrow> Inl e | Inr v \<Rightarrow> py_int v)"

text \<open>
  The matrix entry computed in the inner loop of \<open>create_data_model\<close>. Subscripting
  \<open>None\<close> inside \<open>distance\<close> raises \<open>TypeError\<close>.
\<close>

definition matrix_entry ::
  "float_arith \<Rightarrow> nat \<Rightarrow> oriented \<Rightarrow> nat \<Rightarrow> oriented \<Rightarrow> py_error + int" where
  "matrix_entry R i from_segment j to_segment =
     (if i = j then Inr 0
      else case (endpos from_segment, startpos to_segment) of
             (Some a, Some b) \<Rightarrow> int_distance R a b
           | _ \<Rightarrow> Inl TypeError)"

text \<open>Running a loop whose body may raise: the first error ends it.\<close>

fun collect :: "('e + 'a) list \<Rightarrow> 'e + 'a list" where
  "collect [] = Inr []"
| "collect (r # rs) =
     (case r of
        Inl e \<Rightarrow> Inl e
      | Inr v \<Rightarrow> (case collect rs of Inl e \<Rightarrow> Inl e | Inr vs \<Rightarrow> Inr (v # vs)))"

definition matrix_row ::
  "float_arith \<Rightarrow> oriented list \<Rightarrow> nat \<Rightarrow> oriented \<Rightarrow> py_error + int list" where
  "matrix_row R segs i from_segment =
     collect (map (\<lambda>(j, to_segment). matrix_entry R i from_segment j to_segment)
                (enumerate 0 segs))"

record data_model =
  distance_matrix :: "int list list"
  initial_routes :: "nat list list"
  num_vehicles :: nat
  depot :: nat

text \<open>
  \<open>create_data_model\<close> reads the module global \<open>gcodeopt.segments\<close>; here it is the
  argument \<open>segs\<close>. The argument \<open>R\<close> is the float arithmetic of the platform.
\<close>

definition create_data_model :: "float_arith \<Rightarrow> oriented list \<Rightarrow> py_error + data_model" where
  "create_data_model R segs =
     (case collect (map (\<lambda>(i, from_segment). matrix_row R segs i from_segment)
                     (enumerate 0 segs)) of
        Inl e \<Rightarrow> Inl e
      | Inr m \<Rightarrow> Inr \<lparr>distance_matrix = m,
                     initial_routes = [[1 ..< length m]],
                     num_vehicles = 1,
                     depot = 0\<rparr>)"

section \<open>cvrp.py: the routing library as the program sees it\<close>

text \<open>
  The solver is the OR-tools routing library, which is not part of the program. What
  \<open>print_solution\<close> and \<open>main\<close> read from the objects \<open>manager\<close>, \<open>routing\<close> and
  \<open>solution\<close> is gathered in one record of functions:
  \<open>Start\<close> is \<open>routing.Start\<close>, \<open>IsEnd\<close> is \<open>routing.IsEnd\<close>, \<open>IndexToNode\<close> is
  \<open>manager.IndexToNode\<close>, \<open>NextValue i\<close> is \<open>solution.Value(routing.NextVar(i))\<close> and
  \<open>GetArcCostForVehicle\<close> is the method of that name.
\<close>

record routing =
  Start :: "nat \<Rightarrow> nat"
  IsEnd :: "nat \<Rightarrow> bool"
  IndexToNode :: "nat \<Rightarrow> nat"
  NextValue :: "nat \<Rightarrow> nat"
  GetArcCostForVehicle :: "nat \<Rightarrow> nat \<Rightarrow> nat \<Rightarrow> int"

text \<open>
  The \<open>while\<close> loop of \<open>print_solution\<close>. It ends only when the chain of successors
  reaches an end index, so it is a partial function: \<open>None\<close> is a loop that never ends.
  The result is the final index, the list \<open>indexes\<close> and \<open>route_distance\<close>.
\<close>

partial_function (option) route_loop ::
  "routing \<Rightarrow> nat \<Rightarrow> nat \<Rightarrow> nat list \<Rightarrow> int \<Rightarrow> (nat \<times> nat list \<times> int) option" where
  "route_loop r vehicle_id index indexes route_distance =
     (if IsEnd r index then Some (index, indexes, route_distance)
      else route_loop r vehicle_id (NextValue r index)
             (indexes @ [IndexToNode r index])
             (route_distance + GetArcCostForVehicle r index (NextValue r index) vehicle_id))"

text \<open>
  What \<open>print_solution\<close> produces: the returned list \<open>indexes\<close>, and what it prints, the
  distance of each vehicle's route and the maximum of the route distances.
\<close>

record report =
  indexes :: "nat list"
  route_distances :: "int list"
  max_route_distance :: int

fun vehicle_loop :: "routing \<Rightarrow> nat list \<Rightarrow> report \<Rightarrow> report option" where
  "vehicle_loop r [] rep = Some rep"
| "vehicle_loop r (vehicle_id # vs) rep =
     (case route_loop r vehicle_id (Start r vehicle_id) (indexes rep) 0 of
        None \<Rightarrow> None
      | Some (index, ixs, route_distance) \<Rightarrow>
          vehicle_loop r vs
            \<lparr>indexes = ixs,
             route_distances = route_distances rep @ [route_distance],
             max_route_distance = max route_distance (max_route_distance rep)\<rparr>)"

definition print_solution :: "data_model \<Rightarrow> routing \<Rightarrow> report option" where
  "print_solution data r =
     vehicle_loop r [0 ..< num_vehicles data]
       \<lparr>indexes = [], route_distances = [], max_route_distance = 0\<rparr>"

text \<open>
  \<open>distance_callback\<close>, the closure of \<open>main\<close>. A subscript past the end of a list raises
  \<open>IndexError\<close>; the nodes are natural numbers, so negative subscripts do not occur.
\<close>

definition distance_callback :: "data_model \<Rightarrow> routing \<Rightarrow> nat \<Rightarrow> nat \<Rightarrow> py_error + int" where
  "distance_callback data r from_index to_index =
     (let from_node = IndexToNode r from_index;
          to_node = IndexToNode r to_index
      in if from_node < length (distance_matrix data)
         then (if to_node < length (distance_matrix data ! from_node)
               then Inr (distance_matrix data ! from_node ! to_node)
               else Inl IndexError)
         else Inl IndexError)"

text \<open>
  A disjunction as the library stores it. \<open>main\<close> calls \<open>AddDisjunction\<close> with the list of
  indices only, so the penalty and the cardinality are the library's defaults:
  \<open>kNoPenalty\<close>, which is \<open>-1\<close>, and \<open>1\<close>.
\<close>

record disjunction =
  disj_indices :: "nat list"
  penalty :: int
  max_cardinality :: nat

definition kNoPenalty :: int where
  "kNoPenalty = - 1"

definition AddDisjunction :: "nat list \<Rightarrow> disjunction" where
  "AddDisjunction ixs = \<lparr>disj_indices = ixs, penalty = kNoPenalty, max_cardinality = 1\<rparr>"

text \<open>Python's \<open>range(0, n, 2)\<close>.\<close>

definition range_step2 :: "nat \<Rightarrow> nat list" where
  "range_step2 n = map (\<lambda>k. 2 * k) [0 ..< (n + 1) div 2]"

text \<open>The disjunctions registered by the loop of \<open>main\<close>, in order.\<close>

definition main_disjunctions :: "data_model \<Rightarrow> routing \<Rightarrow> disjunction list" where
  "main_disjunctions data r =
     map (\<lambda>i. AddDisjunction [IndexToNode r i, IndexToNode r (i + 1)])
       (range_step2 (length (distance_matrix data)))"

text \<open>
  The library's documented meaning of a disjunction, for the list \<open>visited\<close> of the
  indices that are on a route: with a negative penalty exactly \<open>max_cardinality\<close> of its
  indices are visited, otherwise at most that many.
\<close>

definition active_count :: "disjunction \<Rightarrow> nat list \<Rightarrow> nat" where
  "active_count d visited = length (filter (\<lambda>i. i \<in> set visited) (disj_indices d))"

definition disjunction_holds :: "disjunction \<Rightarrow> nat list \<Rightarrow> bool" where
  "disjunction_holds d visited =
     (if penalty d < 0 then active_count d visited = max_cardinality d
      else active_count d visited \<le> max_cardinality d)"

definition disjunctions_hold :: "disjunction list \<Rightarrow> nat list \<Rightarrow> bool" where
  "disjunctions_hold ds visited = list_all (\<lambda>d. disjunction_holds d visited) ds"

text \<open>The set printed by \<open>main\<close> after \<open>dropped nodes:\<close>.\<close>

definition dropped_nodes :: "data_model \<Rightarrow> nat list \<Rightarrow> nat set" where
  "dropped_nodes data solution = set [0 ..< length (distance_matrix data)] - set solution"

section \<open>Notions used to state the properties\<close>

text \<open>Every node of a list has both of its positions.\<close>

definition positions_defined :: "oriented list \<Rightarrow> bool" where
  "positions_defined segs = list_all (\<lambda>s. startpos s \<noteq> None \<and> endpos s \<noteq> None) segs"

text \<open>The first value that is present in a list of optional values.\<close>

fun first_defined :: "'a option list \<Rightarrow> 'a option" where
  "first_defined [] = None"
| "first_defined (v # vs) = (case v of Some a \<Rightarrow> Some a | None \<Rightarrow> first_defined vs)"

text \<open>The first X of one list paired with the first Y of another, when both exist.\<close>

definition per_axis :: "pyfloat option list \<Rightarrow> pyfloat option list \<Rightarrow> position option" where
  "per_axis xs ys =
     (case (first_defined xs, first_defined ys) of
        (Some a, Some b) \<Rightarrow> Some (a, b)
      | _ \<Rightarrow> None)"

text \<open>
  The specification's wording of a segment's position, written out for comparison with
  the code: the coordinate of the first line that carries both an X and a Y.
\<close>

fun spec_first_coordinate :: "line list \<Rightarrow> position option" where
  "spec_first_coordinate [] = None"
| "spec_first_coordinate (l # ls) =
     (case (line_x l, line_y l) of
        (Some a, Some b) \<Rightarrow> Some (a, b)
      | _ \<Rightarrow> spec_first_coordinate ls)"

text \<open>
  The specification's count of excluded segments, written out for comparison with the
  code: the number of parts whose start or end position is undefined.
\<close>

definition spec_excluded_count :: "line list list \<Rightarrow> nat" where
  "spec_excluded_count parts =
     length (filter (\<lambda>p. Segment_startpos p = None \<or> Segment_endpos p = None) parts)"

text \<open>
  Two hypotheses on the float arithmetic of the platform, both true of IEEE doubles: an
  operation whose exact result is zero returns zero, and the rounded square root of a
  number that is not negative is not negative.
\<close>

definition exact_at_zero :: "float_arith \<Rightarrow> bool" where
  "exact_at_zero R =
     (round_sub R 0 = Finite 0 \<and> round_add R 0 = Finite 0 \<and>
      round_pow R 0 = Finite 0 \<and> round_sqrt R 0 = Finite 0)"


text \<open>
  A route as a list of indices: each index but the last is followed by its successor in
  the solution, and the last index is the first one that is an end index.
\<close>

fun route_path :: "routing \<Rightarrow> nat list \<Rightarrow> bool" where
  "route_path r [] = False"
| "route_path r [i] = IsEnd r i"
| "route_path r (i # j # p) = (\<not> IsEnd r i \<and> NextValue r i = j \<and> route_path r (j # p))"

text \<open>The consecutive pairs of a list.\<close>

fun arcs :: "nat list \<Rightarrow> (nat \<times> nat) list" where
  "arcs (i # j # p) = (i, j) # arcs (j # p)"
| "arcs p = []"

text \<open>
  The hypothesis on the library under which arc costs are read: along a path, the cost
  that \<open>GetArcCostForVehicle\<close> reports for an arc is the value that the registered
  callback \<open>distance_callback\<close> returns for it.
\<close>

definition costs_from_callback :: "data_model \<Rightarrow> routing \<Rightarrow> nat \<Rightarrow> nat list \<Rightarrow> bool" where
  "costs_from_callback data r vehicle_id path =
     list_all (\<lambda>(a, b). distance_callback data r a b = Inr (GetArcCostForVehicle r a b vehicle_id))
       (arcs path)"

text \<open>
  The hypothesis on the index manager of \<open>main\<close>, built for one vehicle and depot 0: an
  index below the number of nodes is its own node.
\<close>

definition node_indices :: "data_model \<Rightarrow> routing \<Rightarrow> bool" where
  "node_indices data r =
     list_all (\<lambda>i. IndexToNode r i = i) [0 ..< length (distance_matrix data)]"

subsection \<open>A small program used as an example\<close>

text \<open>
  An arithmetic that rounds nothing and overflows from \<open>2 ^ 1024\<close> on. Doubles agree
  with it whenever every intermediate result is itself a double, as in the example below,
  where all of them are small integers.
\<close>

definition exact_round :: "real \<Rightarrow> pyfloat" where
  "exact_round x = (if \<bar>x\<bar> < 2 ^ 1024 then Finite x else if 0 < x then PInf else NInf)"

definition exact_arith :: float_arith where
  "exact_arith = \<lparr>round_sub = exact_round, round_add = exact_round,
                   round_pow = exact_round, round_sqrt = exact_round\<rparr>"

text \<open>
  A program of one preamble line and two strokes, one from (0, 0) to (3, 4) and one from
  (3, 0) to (0, 0); and a part, a rapid move and a feed move, that carries no X and no Y.
\<close>

definition example_preamble :: "line list" where
  "example_preamble = [\<lparr>line_command = ''G21'', line_x = None, line_y = None\<rparr>]"

definition part_a :: "line list" where
  "part_a = [\<lparr>line_command = ''G00'', line_x = Some (Finite 0), line_y = Some (Finite 0)\<rparr>,
             \<lparr>line_command = ''G01'', line_x = Some (Finite 3), line_y = Some (Finite 4)\<rparr>]"

definition part_b :: "line list" where
  "part_b = [\<lparr>line_command = ''G00'', line_x = Some (Finite 3), line_y = Some (Finite 0)\<rparr>,
             \<lparr>line_command = ''G01'', line_x = Some (Finite 0), line_y = Some (Finite 0)\<rparr>]"

definition part_degenerate :: "line list" where
  "part_degenerate = [\<lparr>line_command = ''G00'', line_x = None, line_y = None\<rparr>,
                      \<lparr>line_command = ''G01'', line_x = None, line_y = None\<rparr>]"

definition example_parts :: "line list list" where
  "example_parts = [part_a, part_b]"

definition example_data :: data_model where
  "example_data = \<lparr>distance_matrix = [[0, 0, 4, 5], [0, 0, 3, 0], [0, 5, 0, 0], [3, 4, 0, 0]],
                    initial_routes = [[1, 2, 3]], num_vehicles = 1, depot = 0\<rparr>"

text \<open>
  A state of the library for the example, with its four nodes and the end index 4: the
  route leaves the depot, draws the second stroke forward (node 2) and returns; the
  nodes 1 and 3 are not visited and are their own successors.
\<close>

definition example_routing :: routing where
  "example_routing =
     \<lparr>Start = (\<lambda>vehicle_id. 0),
      IsEnd = (\<lambda>i. 4 \<le> i),
      IndexToNode = (\<lambda>i. if i < 4 then i else 0),
      NextValue = (\<lambda>i. if i = 0 then 2 else if i = 2 then 4 else i),
      GetArcCostForVehicle = (\<lambda>a b vehicle_id.
        distance_matrix example_data ! (if a < 4 then a else 0) ! (if b < 4 then b else 0))\<rparr>"

section \<open>Positions of a segment\<close>

lemma scan_pos_per_axis:
  "px = None \<or> py = None \<Longrightarrow>
   scan_pos px py ls = per_axis (px # map line_x ls) (py # map line_y ls)"
proof (induction ls arbitrary: px py)
  case Nil
  then show ?case by (auto simp: per_axis_def split: option.splits)
next
  case (Cons l ls)
  show ?case
  proof (cases px)
    case None
    note px = this
    show ?thesis
    proof (cases py)
      case None
      with px Cons.IH[of "line_x l" "line_y l"] show ?thesis
        by (auto simp: per_axis_def split: option.splits)
    next
      case (Some b)
      with px Cons.IH[of "line_x l" "Some b"] show ?thesis
        by (auto simp: per_axis_def split: option.splits)
    qed
  next
    case (Some a)
    with Cons.prems have py: "py = None" by simp
    with Some Cons.IH[of "Some a" "line_y l"] show ?thesis
      by (auto simp: per_axis_def split: option.splits)
  qed
qed

text \<open>
  C9, as stated, at a concrete segment: a line with an X only, then a line with X and Y.
  The first line that carries a coordinate pair is the second one, (5, 7); the code
  answers (1, 7), which is the position of no line.
\<close>

theorem C9_positions_counterexample:
  "Segment_startpos
     [\<lparr>line_command = ''G00'', line_x = Some (Finite 1), line_y = None\<rparr>,
      \<lparr>line_command = ''G01'', line_x = Some (Finite 5), line_y = Some (Finite 7)\<rparr>] =
     Some (Finite 1, Finite 7) \<and>
   spec_first_coordinate
     [\<lparr>line_command = ''G00'', line_x = Some (Finite 1), line_y = None\<rparr>,
      \<lparr>line_command = ''G01'', line_x = Some (Finite 5), line_y = Some (Finite 7)\<rparr>] =
     Some (Finite 5, Finite 7)"
  by (simp add: Segment_startpos_def)

text \<open>
  C9, amended: the start position of a segment is the pair of the first X and the first Y
  met when its lines are scanned forward, each axis on its own (the two may come from
  different lines); the end position is the same for the lines scanned backward; a position
  is undefined when one of the axes never occurs.
\<close>

theorem C9_positions_per_axis:
  "Segment_startpos ls = per_axis (map line_x ls) (map line_y ls) \<and>
   Segment_endpos ls = per_axis (map line_x (rev ls)) (map line_y (rev ls))"
  using scan_pos_per_axis[of None None ls] scan_pos_per_axis[of None None "rev ls"]
  by (simp add: Segment_startpos_def Segment_endpos_def per_axis_def)

section \<open>The list of nodes\<close>

lemma segments_defined: "positions_defined (segments parts)"
  by (induction parts) (auto simp: positions_defined_def Let_def Segment_def)

lemma segments_pair:
  "2 * k + 1 < length (segments parts) \<Longrightarrow>
   \<exists>p \<in> set parts. segments parts ! (2 * k) = Forward (Segment p) \<and>
      segments parts ! (2 * k + 1) = ReversedSegment (Segment p)"
proof (induction parts arbitrary: k)
  case Nil
  then show ?case by simp
next
  case (Cons p ps)
  show ?case
  proof (cases "seg_startpos (Segment p) \<noteq> None \<and> seg_endpos (Segment p) \<noteq> None")
    case False
    with Cons show ?thesis by (auto simp: Let_def)
  next
    case True
    show ?thesis
    proof (cases k)
      case 0
      with True show ?thesis by (simp add: Let_def)
    next
      case (Suc k')
      with True Cons.prems have "2 * k' + 1 < length (segments ps)" by (simp add: Let_def)
      from Cons.IH[OF this] Suc True show ?thesis by (auto simp: Let_def)
    qed
  qed
qed

lemma segments_filter:
  "segments parts = concat (map (\<lambda>p. [Forward (Segment p), ReversedSegment (Segment p)])
      (filter (\<lambda>p. Segment_startpos p \<noteq> None \<and> Segment_endpos p \<noteq> None) parts))"
  by (induction parts) (simp_all add: Let_def Segment_def)

lemma even_length_segments: "even (length (segments parts))"
  by (induction parts) (simp_all add: Let_def)

subsection \<open>The example programs, split into parts\<close>

lemma parts_of_example:
  "parts_of (example_preamble @ part_a @ part_b) = [example_preamble, part_a, part_b]"
  by (simp add: parts_of_def example_preamble_def part_a_def part_b_def is_g0_def not_g0_def)

lemma parts_of_example_degenerate:
  "parts_of (example_preamble @ part_a @ part_degenerate @ part_b) =
     [example_preamble, part_a, part_degenerate, part_b]"
  by (simp add: parts_of_def example_preamble_def part_a_def part_b_def part_degenerate_def
      is_g0_def not_g0_def)

lemma segment_degenerate: "Segment_startpos part_degenerate = None"
  by (simp add: Segment_startpos_def part_degenerate_def)

text \<open>
  C8, as stated, at a concrete input: a program with a part that has no coordinate,
  between its two strokes. The module built from it is the module built from the program
  without that part, so nothing the caller receives holds the number of excluded
  segments, which is 1 for the one and 0 for the other.
\<close>

theorem C8_no_count_counterexample:
  "parts_of (example_preamble @ part_a @ part_degenerate @ part_b) =
     [example_preamble, part_a, part_degenerate, part_b] \<and>
   parts_of (example_preamble @ part_a @ part_b) = [example_preamble, part_a, part_b] \<and>
   gcodeopt (parts_of (example_preamble @ part_a @ part_degenerate @ part_b)) =
     gcodeopt (parts_of (example_preamble @ part_a @ part_b)) \<and>
   spec_excluded_count [part_a, part_degenerate, part_b] = 1 \<and>
   spec_excluded_count [part_a, part_b] = 0"
proof -
  have a: "Segment_startpos part_a \<noteq> None" "Segment_endpos part_a \<noteq> None"
    by (simp_all add: Segment_startpos_def Segment_endpos_def part_a_def)
  have b: "Segment_startpos part_b \<noteq> None" "Segment_endpos part_b \<noteq> None"
    by (simp_all add: Segment_startpos_def Segment_endpos_def part_b_def)
  have "segments [part_a, part_degenerate, part_b] = segments [part_a, part_b]"
    using a b by (simp add: Let_def Segment_def segment_degenerate)
  then have "gcodeopt (parts_of (example_preamble @ part_a @ part_degenerate @ part_b)) =
     gcodeopt (parts_of (example_preamble @ part_a @ part_b))"
    unfolding parts_of_example parts_of_example_degenerate by (simp add: gcodeopt_def)
  moreover have "spec_excluded_count [part_a, part_degenerate, part_b] = 1"
    "spec_excluded_count [part_a, part_b] = 0"
    using a b by (simp_all add: spec_excluded_count_def segment_degenerate)
  ultimately show ?thesis
    using parts_of_example parts_of_example_degenerate by simp
qed

text \<open>
  C8, amended: the nodes are the forward and the reversed orientation of exactly the
  parts whose start and end positions are both defined, in order; a part with an undefined
  position contributes no node, and the module is the one the program without those parts
  gives: the exclusion is silent and no count is kept.
\<close>

theorem C8_degenerate_excluded:
  "segments parts =
     concat (map (\<lambda>p. [Forward (Segment p), ReversedSegment (Segment p)])
       (filter (\<lambda>p. Segment_startpos p \<noteq> None \<and> Segment_endpos p \<noteq> None) parts)) \<and>
   gcodeopt (pre # parts) =
     gcodeopt (pre # filter (\<lambda>p. Segment_startpos p \<noteq> None \<and> Segment_endpos p \<noteq> None) parts)"
proof -
  let ?keep = "filter (\<lambda>p. Segment_startpos p \<noteq> None \<and> Segment_endpos p \<noteq> None) parts"
  have "segments ?keep = segments parts"
    by (subst (1 2) segments_filter) simp
  then show ?thesis
    using segments_filter[of parts] by (simp add: gcodeopt_def)
qed

section \<open>The distance matrix\<close>

lemma collect_Inr:
  "collect rs = Inr vs \<Longrightarrow> length vs = length rs \<and> (\<forall>i<length rs. rs ! i = Inr (vs ! i))"
proof (induction rs arbitrary: vs)
  case Nil
  then show ?case by simp
next
  case (Cons r rs)
  from Cons.prems obtain v ws where r: "r = Inr v" and ws: "collect rs = Inr ws"
    and vs: "vs = v # ws"
    by (auto split: sum.splits)
  from Cons.IH[OF ws] have len: "length ws = length rs"
    and nth: "\<forall>i<length rs. rs ! i = Inr (ws ! i)" by simp_all
  have "\<forall>i<length (r # rs). (r # rs) ! i = Inr (vs ! i)"
  proof (intro allI impI)
    fix i assume "i < length (r # rs)"
    then show "(r # rs) ! i = Inr (vs ! i)"
      using r vs nth by (cases i) simp_all
  qed
  with len vs show ?case by simp
qed

lemma collect_Inl: "collect rs = Inl e \<Longrightarrow> \<exists>i<length rs. rs ! i = Inl e"
proof (induction rs)
  case Nil
  then show ?case by simp
next
  case (Cons r rs)
  show ?case
  proof (cases r)
    case (Inl e')
    with Cons.prems have "(r # rs) ! 0 = Inl e" by simp
    then show ?thesis by (intro exI[of _ 0]) simp
  next
    case (Inr v)
    with Cons.prems have "collect rs = Inl e" by (auto split: sum.splits)
    from Cons.IH[OF this] obtain i where "i < length rs" "rs ! i = Inl e" by blast
    then have "Suc i < length (r # rs)" "(r # rs) ! Suc i = Inl e" by simp_all
    then show ?thesis by blast
  qed
qed

lemma matrix_row_Inr:
  assumes "matrix_row R segs i u = Inr row"
  shows "length row = length segs"
    and "j < length segs \<Longrightarrow> matrix_entry R i u j (segs ! j) = Inr (row ! j)"
proof -
  let ?rs = "map (\<lambda>(j, v). matrix_entry R i u j v) (enumerate 0 segs)"
  from assms have c: "collect ?rs = Inr row" by (simp add: matrix_row_def)
  from collect_Inr[OF c] show "length row = length segs" by simp
  assume "j < length segs"
  with collect_Inr[OF c] have "?rs ! j = Inr (row ! j)" by simp
  with \<open>j < length segs\<close> show "matrix_entry R i u j (segs ! j) = Inr (row ! j)"
    by (simp add: nth_enumerate_eq)
qed

lemma matrix_row_Inl:
  assumes "matrix_row R segs i u = Inl e"
  shows "\<exists>j<length segs. matrix_entry R i u j (segs ! j) = Inl e"
proof -
  let ?rs = "map (\<lambda>(j, v). matrix_entry R i u j v) (enumerate 0 segs)"
  from assms have "collect ?rs = Inl e" by (simp add: matrix_row_def)
  from collect_Inl[OF this] obtain j where j: "j < length segs" and "?rs ! j = Inl e"
    by auto
  then have "matrix_entry R i u j (segs ! j) = Inl e" by (simp add: nth_enumerate_eq)
  with j show ?thesis by blast
qed

lemma create_data_model_Inr:
  assumes "create_data_model R segs = Inr d"
  shows "length (distance_matrix d) = length segs"
    and "initial_routes d = [[1 ..< length segs]]"
    and "num_vehicles d = 1"
    and "depot d = 0"
    and "i < length segs \<Longrightarrow> length (distance_matrix d ! i) = length segs"
    and "i < length segs \<Longrightarrow> j < length segs \<Longrightarrow>
           matrix_entry R i (segs ! i) j (segs ! j) = Inr (distance_matrix d ! i ! j)"
proof -
  let ?rs = "map (\<lambda>(i, u). matrix_row R segs i u) (enumerate 0 segs)"
  from assms obtain m where c: "collect ?rs = Inr m"
    and d: "d = \<lparr>distance_matrix = m, initial_routes = [[1 ..< length m]],
                  num_vehicles = 1, depot = 0\<rparr>"
    by (auto simp: create_data_model_def split: sum.splits)
  from collect_Inr[OF c] have len: "length m = length segs"
    and nth: "\<forall>i<length segs. ?rs ! i = Inr (m ! i)" by simp_all
  show "length (distance_matrix d) = length segs" by (simp add: d len)
  show "initial_routes d = [[1 ..< length segs]]" by (simp add: d len)
  show "num_vehicles d = 1" by (simp add: d)
  show "depot d = 0" by (simp add: d)
  {
    assume i: "i < length segs"
    with nth have row: "matrix_row R segs i (segs ! i) = Inr (m ! i)"
      by (simp add: nth_enumerate_eq)
    from matrix_row_Inr(1)[OF row]
    show "length (distance_matrix d ! i) = length segs" by (simp add: d)
    assume "j < length segs"
    from matrix_row_Inr(2)[OF row this]
    show "matrix_entry R i (segs ! i) j (segs ! j) = Inr (distance_matrix d ! i ! j)"
      by (simp add: d)
  }
qed

lemma create_data_model_Inl:
  assumes "create_data_model R segs = Inl e"
  shows "\<exists>i<length segs. \<exists>j<length segs. matrix_entry R i (segs ! i) j (segs ! j) = Inl e"
proof -
  let ?rs = "map (\<lambda>(i, u). matrix_row R segs i u) (enumerate 0 segs)"
  from assms have "collect ?rs = Inl e"
    by (auto simp: create_data_model_def split: sum.splits)
  from collect_Inl[OF this] obtain i where i: "i < length segs" and "?rs ! i = Inl e"
    by auto
  then have "matrix_row R segs i (segs ! i) = Inl e" by (simp add: nth_enumerate_eq)
  from matrix_row_Inl[OF this] i show ?thesis by blast
qed



lemma distance_self:
  assumes "exact_at_zero R"
  shows "distance R p p = Inr (Finite 0) \<or> distance R p p = Inr NaN"
proof -
  from assms have z: "round_sub R 0 = Finite 0" "round_add R 0 = Finite 0"
    "round_pow R 0 = Finite 0" "round_sqrt R 0 = Finite 0"
    by (simp_all add: exact_at_zero_def)
  have sq: "float_pow2 R (float_sub R u u) = Inr (Finite 0) \<or>
            float_pow2 R (float_sub R u u) = Inr NaN" for u
    by (cases u) (simp_all add: z)
  from sq[of "fst p"] sq[of "snd p"] show ?thesis
    by (auto simp: distance_def z)
qed

lemma int_distance_self:
  assumes "exact_at_zero R"
  shows "int_distance R p p = Inr 0 \<or> int_distance R p p = Inl ValueError"
  using distance_self[OF assms, of p] by (auto simp: int_distance_def)

subsection \<open>The example, evaluated\<close>

lemma sqrt_values: "sqrt 9 = 3" "sqrt 16 = 4" "sqrt 25 = 5"
proof -
  have "sqrt (3\<^sup>2) = 3" "sqrt (4\<^sup>2) = 4" "sqrt (5\<^sup>2) = 5"
    by simp_all
  then show "sqrt 9 = 3" "sqrt 16 = 4" "sqrt 25 = 5" by simp_all
qed

lemma exact_round_small: "\<bar>x\<bar> \<le> 100 \<Longrightarrow> exact_round x = Finite x"
proof -
  assume "\<bar>x\<bar> \<le> 100"
  moreover have "(100::real) < 2 ^ 1024" by simp
  ultimately have "\<bar>x\<bar> < 2 ^ 1024" by linarith
  then show ?thesis by (simp add: exact_round_def)
qed

lemma exact_arith_at_zero: "exact_at_zero exact_arith"
  by (simp add: exact_at_zero_def exact_arith_def exact_round_small)


lemma segment_a:
  "Segment part_a = \<lparr>seg_lines = part_a, seg_startpos = Some (Finite 0, Finite 0),
                      seg_endpos = Some (Finite 3, Finite 4)\<rparr>"
  by (simp add: Segment_def Segment_startpos_def Segment_endpos_def part_a_def)

lemma segment_b:
  "Segment part_b = \<lparr>seg_lines = part_b, seg_startpos = Some (Finite 3, Finite 0),
                      seg_endpos = Some (Finite 0, Finite 0)\<rparr>"
  by (simp add: Segment_def Segment_startpos_def Segment_endpos_def part_b_def)

lemma segments_example:
  "segments example_parts =
     [Forward (Segment part_a), ReversedSegment (Segment part_a),
      Forward (Segment part_b), ReversedSegment (Segment part_b)]"
  by (simp add: example_parts_def Let_def segment_a segment_b)

lemma gcodeopt_example:
  "gcodeopt (parts_of (example_preamble @ part_a @ part_b)) =
     Inr \<lparr>preamble = example_preamble, module_segments = segments example_parts\<rparr>"
  unfolding parts_of_example by (simp add: gcodeopt_def example_parts_def)

lemma int_distance_examples:
  "int_distance exact_arith (Finite 0, Finite 0) (Finite 0, Finite 0) = Inr 0"
  "int_distance exact_arith (Finite 0, Finite 0) (Finite 3, Finite 0) = Inr 3"
  "int_distance exact_arith (Finite 0, Finite 0) (Finite 3, Finite 4) = Inr 5"
  "int_distance exact_arith (Finite 3, Finite 4) (Finite 3, Finite 4) = Inr 0"
  "int_distance exact_arith (Finite 3, Finite 4) (Finite 3, Finite 0) = Inr 4"
  "int_distance exact_arith (Finite 3, Finite 4) (Finite 0, Finite 0) = Inr 5"
  "int_distance exact_arith (Finite 3, Finite 0) (Finite 0, Finite 0) = Inr 3"
  "int_distance exact_arith (Finite 3, Finite 0) (Finite 3, Finite 4) = Inr 4"
  "int_distance exact_arith (Finite 3, Finite 0) (Finite 3, Finite 0) = Inr 0"
  by (simp_all add: int_distance_def distance_def exact_arith_def exact_round_small sqrt_values)

lemma upt_1_4: "[1 ..< 4] = [1, 2, 3::nat]"
  by (simp add: upt_rec)

lemma create_data_model_example:
  "create_data_model exact_arith (segments example_parts) = Inr example_data"
  by (simp add: segments_example create_data_model_def matrix_row_def matrix_entry_def
      segment_a segment_b int_distance_examples example_data_def upt_1_4)

subsection \<open>Entries of the matrix\<close>



text \<open>
  C10: the two orientations of a segment stand at the indices 2k and 2k+1 of the node
  list, and in the matrix that \<open>create_data_model\<close> returns the entries between them are
  zero in both directions, off the diagonal. When it returns no matrix, it raises the
  error of one of the entries.
\<close>

theorem C10_twin_costs_zero:
  assumes "exact_at_zero R" and "2 * k + 1 < length (segments parts)"
  shows "\<exists>s. segments parts ! (2 * k) = Forward s \<and>
           segments parts ! (2 * k + 1) = ReversedSegment s \<and>
           (case create_data_model R (segments parts) of
              Inr d \<Rightarrow>
                distance_matrix d ! (2 * k) ! (2 * k + 1) = 0 \<and>
                distance_matrix d ! (2 * k + 1) ! (2 * k) = 0
            | Inl e \<Rightarrow>
                \<exists>i<length (segments parts). \<exists>j<length (segments parts).
                   matrix_entry R i (segments parts ! i) j (segments parts ! j) = Inl e)"
proof -
  let ?segs = "segments parts"
  from segments_pair[OF assms(2)] obtain p where
    p: "?segs ! (2 * k) = Forward (Segment p)"
       "?segs ! (2 * k + 1) = ReversedSegment (Segment p)" by blast
  have lt: "2 * k < length ?segs" using assms(2) by simp
  have "case create_data_model R ?segs of
          Inr d \<Rightarrow>
            distance_matrix d ! (2 * k) ! (2 * k + 1) = 0 \<and>
            distance_matrix d ! (2 * k + 1) ! (2 * k) = 0
        | Inl e \<Rightarrow>
            \<exists>i<length ?segs. \<exists>j<length ?segs.
               matrix_entry R i (?segs ! i) j (?segs ! j) = Inl e"
  proof (cases "create_data_model R ?segs")
    case (Inl e)
    from create_data_model_Inl[OF this] Inl show ?thesis by simp
  next
    case (Inr d)
    note f = create_data_model_Inr[OF Inr]
    from f(6)[OF lt assms(2)] p
    have e1: "matrix_entry R (2 * k) (Forward (Segment p)) (2 * k + 1)
        (ReversedSegment (Segment p)) = Inr (distance_matrix d ! (2 * k) ! (2 * k + 1))"
      by simp
    from f(6)[OF assms(2) lt] p
    have e2: "matrix_entry R (2 * k + 1) (ReversedSegment (Segment p)) (2 * k)
        (Forward (Segment p)) = Inr (distance_matrix d ! (2 * k + 1) ! (2 * k))"
      by simp
    from e1 obtain a where "int_distance R a a = Inr (distance_matrix d ! (2 * k) ! (2 * k + 1))"
      by (auto simp: matrix_entry_def split: option.splits)
    with int_distance_self[OF assms(1), of a]
    have z1: "distance_matrix d ! (2 * k) ! (2 * k + 1) = 0" by auto
    from e2 obtain b where "int_distance R b b = Inr (distance_matrix d ! (2 * k + 1) ! (2 * k))"
      by (auto simp: matrix_entry_def split: option.splits)
    with int_distance_self[OF assms(1), of b]
    have z2: "distance_matrix d ! (2 * k + 1) ! (2 * k) = 0" by auto
    from z1 z2 Inr show ?thesis by simp
  qed
  with p show ?thesis by blast
qed

theorem C10_twin_costs_zero_witness:
  "exact_at_zero exact_arith \<and>
   2 * 1 + 1 < length (segments example_parts) \<and>
   create_data_model exact_arith (segments example_parts) = Inr example_data \<and>
   distance_matrix example_data ! (2 * 1) ! (2 * 1 + 1) = 0 \<and>
   distance_matrix example_data ! (2 * 1 + 1) ! (2 * 1) = 0"
proof -
  have h: "2 * 1 + 1 < length (segments example_parts)"
    by (simp add: segments_example)
  from C10_twin_costs_zero[OF exact_arith_at_zero h, unfolded create_data_model_example]
  have "distance_matrix example_data ! (2 * 1) ! (2 * 1 + 1) = 0 \<and>
        distance_matrix example_data ! (2 * 1 + 1) ! (2 * 1) = 0"
    by auto
  with exact_arith_at_zero h create_data_model_example show ?thesis by (intro conjI) simp_all
qed

text \<open>
  C3, as stated, at the example: node 0, the depot, is the forward orientation of the
  first stroke of the program, and the costs out of it and into it are not zero: 5 from
  node 0 to node 3 and 3 from node 3 to node 0.
\<close>

theorem C3_depot_is_real_segment_counterexample:
  "gcodeopt (parts_of (example_preamble @ part_a @ part_b)) =
     Inr \<lparr>preamble = example_preamble, module_segments = segments example_parts\<rparr> \<and>
   create_data_model exact_arith (segments example_parts) = Inr example_data \<and>
   depot example_data = 0 \<and>
   segments example_parts ! 0 = Forward (Segment part_a) \<and>
   distance_matrix example_data ! 0 ! 3 = 5 \<and>
   distance_matrix example_data ! 3 ! 0 = 3"
proof -
  have "segments example_parts ! 0 = Forward (Segment part_a)"
    by (simp add: segments_example)
  moreover have "depot example_data = 0" "distance_matrix example_data ! 0 ! 3 = 5"
    "distance_matrix example_data ! 3 ! 0 = 3"
    by (simp_all add: example_data_def)
  ultimately show ?thesis
    using create_data_model_example gcodeopt_example by (intro conjI)
qed

text \<open>
  C3, amended: node 0, the depot, is the forward orientation of the first input part
  whose positions are both defined. In the matrix that \<open>create_data_model\<close> returns, its
  cost to itself is 0 and its cost to or from any other node j is the integer part of
  the float distance, computed as for every other pair of nodes. When no matrix is
  returned, the error of one of the entries is raised.
\<close>

theorem C3_depot_node:
  assumes "segments parts \<noteq> []"
  shows "\<exists>p. p = hd (filter (\<lambda>p. Segment_startpos p \<noteq> None \<and> Segment_endpos p \<noteq> None) parts) \<and>
           p \<in> set parts \<and>
           segments parts ! 0 = Forward (Segment p) \<and>
           (case create_data_model R (segments parts) of
              Inr d \<Rightarrow>
                depot d = 0 \<and> distance_matrix d ! 0 ! 0 = 0 \<and>
                (\<forall>j<length (segments parts). j \<noteq> 0 \<longrightarrow>
                   int_distance R (the (seg_endpos (Segment p))) (the (startpos (segments parts ! j))) =
                     Inr (distance_matrix d ! 0 ! j) \<and>
                   int_distance R (the (endpos (segments parts ! j))) (the (seg_startpos (Segment p))) =
                     Inr (distance_matrix d ! j ! 0))
            | Inl e \<Rightarrow>
                \<exists>i<length (segments parts). \<exists>j<length (segments parts).
                   matrix_entry R i (segments parts ! i) j (segments parts ! j) = Inl e)"
proof -
  let ?keep = "filter (\<lambda>p. Segment_startpos p \<noteq> None \<and> Segment_endpos p \<noteq> None) parts"
  let ?segs = "segments parts"
  have "?keep = [] \<Longrightarrow> ?segs = []"
    by (subst segments_filter) simp
  with assms have ne: "?keep \<noteq> []" by blast
  then obtain p ps where keep: "?keep = p # ps" by (cases ?keep) auto
  then have hd: "p = hd ?keep" by simp
  have "p \<in> set ?keep" using keep by simp
  then have mem: "p \<in> set parts" by simp
  have first: "?segs ! 0 = Forward (Segment p)"
    unfolding segments_filter[of parts] keep by simp
  have pos: "0 < length ?segs" using assms by simp
  have defined: "\<And>j. j < length ?segs \<Longrightarrow>
      startpos (?segs ! j) \<noteq> None \<and> endpos (?segs ! j) \<noteq> None"
    using segments_defined[of parts]
    by (simp add: positions_defined_def list_all_length)
  have "case create_data_model R ?segs of
          Inr d \<Rightarrow>
            depot d = 0 \<and> distance_matrix d ! 0 ! 0 = 0 \<and>
            (\<forall>j<length ?segs. j \<noteq> 0 \<longrightarrow>
               int_distance R (the (seg_endpos (Segment p))) (the (startpos (?segs ! j))) =
                 Inr (distance_matrix d ! 0 ! j) \<and>
               int_distance R (the (endpos (?segs ! j))) (the (seg_startpos (Segment p))) =
                 Inr (distance_matrix d ! j ! 0))
        | Inl e \<Rightarrow>
            \<exists>i<length ?segs. \<exists>j<length ?segs.
               matrix_entry R i (?segs ! i) j (?segs ! j) = Inl e"
  proof (cases "create_data_model R ?segs")
    case (Inl e)
    from create_data_model_Inl[OF this] Inl show ?thesis by simp
  next
    case (Inr d)
    note f = create_data_model_Inr[OF Inr]
    from f(6)[OF pos pos] have zero: "distance_matrix d ! 0 ! 0 = 0"
      by (simp add: matrix_entry_def)
    have "\<forall>j<length ?segs. j \<noteq> 0 \<longrightarrow>
        int_distance R (the (seg_endpos (Segment p))) (the (startpos (?segs ! j))) =
          Inr (distance_matrix d ! 0 ! j) \<and>
        int_distance R (the (endpos (?segs ! j))) (the (seg_startpos (Segment p))) =
          Inr (distance_matrix d ! j ! 0)"
    proof (intro allI impI)
      fix j assume j: "j < length ?segs" "j \<noteq> 0"
      from defined[OF pos] first have d0: "seg_startpos (Segment p) \<noteq> None"
        "seg_endpos (Segment p) \<noteq> None" by simp_all
      from defined[OF j(1)] have dj: "startpos (?segs ! j) \<noteq> None" "endpos (?segs ! j) \<noteq> None"
        by simp_all
      from f(6)[OF pos j(1)] first j(2) d0 dj
      have a: "int_distance R (the (seg_endpos (Segment p))) (the (startpos (?segs ! j))) =
          Inr (distance_matrix d ! 0 ! j)"
        by (auto simp: matrix_entry_def)
      from f(6)[OF j(1) pos] first j(2) d0 dj
      have b: "int_distance R (the (endpos (?segs ! j))) (the (seg_startpos (Segment p))) =
          Inr (distance_matrix d ! j ! 0)"
        by (auto simp: matrix_entry_def)
      from a b show "int_distance R (the (seg_endpos (Segment p))) (the (startpos (?segs ! j))) =
          Inr (distance_matrix d ! 0 ! j) \<and>
        int_distance R (the (endpos (?segs ! j))) (the (seg_startpos (Segment p))) =
          Inr (distance_matrix d ! j ! 0)" by (rule conjI)
    qed
    with zero f(4) Inr show ?thesis by simp
  qed
  with hd mem first show ?thesis by blast
qed

theorem C3_depot_node_witness:
  "segments example_parts \<noteq> [] \<and>
   segments example_parts ! 0 = Forward (Segment part_a) \<and>
   create_data_model exact_arith (segments example_parts) = Inr example_data \<and>
   depot example_data = 0 \<and>
   distance_matrix example_data ! 0 ! 0 = 0 \<and>
   int_distance exact_arith (Finite 3, Finite 4) (Finite 0, Finite 0) =
     Inr (distance_matrix example_data ! 0 ! 3) \<and>
   distance_matrix example_data ! 0 ! 3 = 5"
proof -
  have h: "segments example_parts \<noteq> []" by (simp add: segments_example)
  have three: "(3::nat) < length (segments example_parts)" by (simp add: segments_example)
  have first: "segments example_parts ! 0 = Forward (Segment part_a)"
    by (simp add: segments_example)
  from C3_depot_node[OF h, of exact_arith, unfolded create_data_model_example]
  obtain p where p: "segments example_parts ! 0 = Forward (Segment p)"
    and d: "depot example_data = 0" "distance_matrix example_data ! 0 ! 0 = 0"
    and e: "\<forall>j<length (segments example_parts). j \<noteq> 0 \<longrightarrow>
       int_distance exact_arith (the (seg_endpos (Segment p)))
           (the (startpos (segments example_parts ! j))) =
         Inr (distance_matrix example_data ! 0 ! j) \<and>
       int_distance exact_arith (the (endpos (segments example_parts ! j)))
           (the (seg_startpos (Segment p))) =
         Inr (distance_matrix example_data ! j ! 0)"
    by auto
  from p first have pa: "Segment p = Segment part_a" by simp
  from e three have "int_distance exact_arith (the (seg_endpos (Segment p)))
           (the (startpos (segments example_parts ! 3))) =
         Inr (distance_matrix example_data ! 0 ! 3)" by simp
  then have i: "int_distance exact_arith (Finite 3, Finite 4) (Finite 0, Finite 0) =
     Inr (distance_matrix example_data ! 0 ! 3)"
    by (simp add: pa segments_example segment_a segment_b)
  have five: "distance_matrix example_data ! 0 ! 3 = 5" by (simp add: example_data_def)
  from h first create_data_model_example d i five show ?thesis by (intro conjI)
qed

section \<open>The routing part of cvrp.py\<close>

lemma route_loop_path:
  "route_path r (index # p) \<Longrightarrow>
   route_loop r v index ixs acc =
     Some (last (index # p),
           ixs @ map (IndexToNode r) (butlast (index # p)),
           acc + (\<Sum>(a, b)\<leftarrow>arcs (index # p). GetArcCostForVehicle r a b v))"
proof (induction p arbitrary: index ixs acc)
  case Nil
  then show ?case by (subst route_loop.simps) simp
next
  case (Cons j p)
  from Cons.prems have step: "\<not> IsEnd r index" "NextValue r index = j" "route_path r (j # p)"
    by simp_all
  show ?case
    by (subst route_loop.simps) (simp add: step Cons.IH[OF step(3)])
qed

lemma print_solution_path:
  assumes "num_vehicles data = 1" and "route_path r (Start r 0 # p)"
  shows "print_solution data r =
     Some \<lparr>indexes = map (IndexToNode r) (butlast (Start r 0 # p)),
           route_distances = [\<Sum>(a, b)\<leftarrow>arcs (Start r 0 # p). GetArcCostForVehicle r a b 0],
           max_route_distance = max (\<Sum>(a, b)\<leftarrow>arcs (Start r 0 # p). GetArcCostForVehicle r a b 0) 0\<rparr>"
  using assms(1) route_loop_path[OF assms(2), of 0 "[]" 0]
  by (simp add: print_solution_def)

lemma callback_costs:
  "list_all (\<lambda>(a, b). distance_callback data r a b = Inr (GetArcCostForVehicle r a b v)) arcs_list \<Longrightarrow>
   (\<Sum>(a, b)\<leftarrow>arcs_list. GetArcCostForVehicle r a b v) =
   (\<Sum>(a, b)\<leftarrow>arcs_list. distance_matrix data ! IndexToNode r a ! IndexToNode r b)"
proof (induction arcs_list)
  case Nil
  then show ?case by simp
next
  case (Cons e es)
  obtain a b where e: "e = (a, b)" by (cases e)
  from Cons.prems e have "distance_callback data r a b = Inr (GetArcCostForVehicle r a b v)"
    by simp
  then have "GetArcCostForVehicle r a b v = distance_matrix data ! IndexToNode r a ! IndexToNode r b"
    by (auto simp: distance_callback_def Let_def split: if_splits)
  with Cons e show ?case by simp
qed

lemma set_range_step2: "set (range_step2 n) = {i. even i \<and> i < n}"
proof -
  have "\<And>i. even i \<Longrightarrow> i < n \<Longrightarrow> i \<in> (\<lambda>k. 2 * k) ` {0..<(n + 1) div 2}"
  proof -
    fix i :: nat assume "even i" "i < n"
    then obtain k where "i = 2 * k" by (auto elim: evenE)
    with \<open>i < n\<close> have "k < (n + 1) div 2" by simp
    with \<open>i = 2 * k\<close> show "i \<in> (\<lambda>k. 2 * k) ` {0..<(n + 1) div 2}" by simp
  qed
  moreover have "\<And>k. k < (n + 1) div 2 \<Longrightarrow> 2 * k < n" by arith
  ultimately show ?thesis by (auto simp: range_step2_def)
qed

lemma disjunction_holds_pair:
  "disjunction_holds (AddDisjunction [a, b]) visited \<longleftrightarrow> (a \<in> set visited) \<noteq> (b \<in> set visited)"
  by (simp add: disjunction_holds_def AddDisjunction_def kNoPenalty_def active_count_def)

lemma main_disjunction_pair:
  assumes "node_indices data r" and "2 * k + 1 < length (distance_matrix data)"
    and "disjunctions_hold (main_disjunctions data r) visited"
  shows "(2 * k \<in> set visited) \<noteq> (2 * k + 1 \<in> set visited)"
proof -
  let ?n = "length (distance_matrix data)"
  from assms(1) have id: "\<And>i. i < ?n \<Longrightarrow> IndexToNode r i = i"
    by (simp add: node_indices_def list_all_iff)
  have "2 * k \<in> set (range_step2 ?n)"
    using assms(2) by (simp add: set_range_step2)
  then have "AddDisjunction [IndexToNode r (2 * k), IndexToNode r (2 * k + 1)]
      \<in> set (main_disjunctions data r)"
    by (auto simp: main_disjunctions_def)
  with assms(3) have "disjunction_holds
      (AddDisjunction [IndexToNode r (2 * k), IndexToNode r (2 * k + 1)]) visited"
    by (simp add: disjunctions_hold_def list_all_iff)
  moreover have "IndexToNode r (2 * k) = 2 * k" "IndexToNode r (2 * k + 1) = 2 * k + 1"
    using assms(2) by (simp_all add: id)
  ultimately show ?thesis by (simp add: disjunction_holds_pair)
qed

lemma range_step2_4: "range_step2 4 = [0, 2]"
  by (simp add: range_step2_def upt_rec)

lemma length_example: "length (distance_matrix example_data) = 4"
  by (simp add: example_data_def)

lemma main_disjunctions_example:
  "main_disjunctions example_data example_routing = [AddDisjunction [0, 1], AddDisjunction [2, 3]]"
  unfolding main_disjunctions_def length_example range_step2_4
  by (simp add: example_routing_def)

lemma node_indices_example: "node_indices example_data example_routing"
  by (simp add: node_indices_def example_data_def example_routing_def upt_rec)

lemma route_path_example: "route_path example_routing [0, 2, 4]"
  by (simp add: example_routing_def)

lemma print_solution_example:
  "print_solution example_data example_routing =
     Some \<lparr>indexes = [0, 2], route_distances = [4], max_route_distance = 4\<rparr>"
proof -
  have s: "Start example_routing 0 = 0" by (simp add: example_routing_def)
  have n: "num_vehicles example_data = 1" by (simp add: example_data_def)
  have p: "route_path example_routing (Start example_routing 0 # [2, 4])"
    unfolding s by (rule route_path_example)
  show ?thesis
    unfolding print_solution_path[OF n p]
    by (simp add: example_routing_def example_data_def)
qed

text \<open>
  C7: for the data model of the program, a route of vehicle 0 that reaches an end index,
  and arc costs that are the values the registered callback returns, \<open>print_solution\<close>
  terminates and the route distance it reports is the sum, over the consecutive pairs of
  the route, of the distance-matrix entries of their nodes.
\<close>

theorem C7_route_distance:
  assumes "create_data_model R segs = Inr data"
    and "route_path r (Start r 0 # p)"
    and "costs_from_callback data r 0 (Start r 0 # p)"
  shows "\<exists>rep. print_solution data r = Some rep \<and>
           route_distances rep =
             [\<Sum>(a, b)\<leftarrow>arcs (Start r 0 # p).
                 distance_matrix data ! IndexToNode r a ! IndexToNode r b]"
  using print_solution_path[OF create_data_model_Inr(3)[OF assms(1)] assms(2)]
    callback_costs[OF assms(3)[unfolded costs_from_callback_def]]
  by simp

theorem C7_route_distance_witness:
  "create_data_model exact_arith (segments example_parts) = Inr example_data \<and>
   route_path example_routing (Start example_routing 0 # [2, 4]) \<and>
   costs_from_callback example_data example_routing 0 (Start example_routing 0 # [2, 4]) \<and>
   (\<exists>rep. print_solution example_data example_routing = Some rep \<and> route_distances rep = [4])"
proof -
  have s: "Start example_routing 0 = 0" by (simp add: example_routing_def)
  have p: "route_path example_routing (Start example_routing 0 # [2, 4])"
    unfolding s by (rule route_path_example)
  have c: "costs_from_callback example_data example_routing 0 (Start example_routing 0 # [2, 4])"
    unfolding s
    by (simp add: costs_from_callback_def distance_callback_def example_routing_def example_data_def)
  from C7_route_distance[OF create_data_model_example p c] obtain rep where
    rep: "print_solution example_data example_routing = Some rep"
      "route_distances rep =
         [\<Sum>(a, b)\<leftarrow>arcs (Start example_routing 0 # [2, 4]).
             distance_matrix example_data ! IndexToNode example_routing a ! IndexToNode example_routing b]"
    by blast
  from rep(2) have "route_distances rep = [4]"
    by (simp add: s) (simp add: example_routing_def example_data_def)
  with rep(1) create_data_model_example p c show ?thesis by blast
qed

lemma upt_0_4: "[0 ..< 4] = [0, 1, 2, 3::nat]"
  by (simp add: upt_rec)

lemma atLeastLessThan_0_4: "{0 ..< 4} = {0, 1, 2, 3::nat}"
  by auto

text \<open>
  C6, as stated, at the example: the list returned for the route depot, node 2, depot is
  [0, 2]; it holds the depot index 0, which the claim says is not emitted.
\<close>

theorem C6_depot_emitted_counterexample:
  "print_solution example_data example_routing =
     Some \<lparr>indexes = [0, 2], route_distances = [4], max_route_distance = 4\<rparr> \<and>
   depot example_data = 0 \<and>
   dropped_nodes example_data [0, 2] = {1, 3}"
proof -
  have "dropped_nodes example_data [0, 2] = {1, 3}"
    unfolding dropped_nodes_def length_example upt_0_4 by auto
  moreover have "depot example_data = 0" by (simp add: example_data_def)
  ultimately show ?thesis using print_solution_example by simp
qed

text \<open>
  C6, amended: \<open>print_solution\<close> returns the nodes of the indices of the route from
  the start index, included, to the end index, excluded, in route order, so the list
  begins with the depot node 0; the set of dropped nodes is the set of all node indices
  0..N-1 minus the set of the returned nodes.
\<close>

theorem C6_emitted_nodes:
  assumes "create_data_model R segs = Inr data"
    and "route_path r (Start r 0 # j # p)"
    and "IndexToNode r (Start r 0) = depot data"
  shows "\<exists>rep. print_solution data r = Some rep \<and>
           indexes rep = 0 # map (IndexToNode r) (butlast (j # p)) \<and>
           dropped_nodes data (indexes rep) = {0 ..< length segs} - set (indexes rep)"
  using print_solution_path[OF create_data_model_Inr(3)[OF assms(1)] assms(2)]
    assms(3) create_data_model_Inr(1,4)[OF assms(1)]
  by (simp add: dropped_nodes_def)

theorem C6_emitted_nodes_witness:
  "create_data_model exact_arith (segments example_parts) = Inr example_data \<and>
   route_path example_routing (Start example_routing 0 # 2 # [4]) \<and>
   IndexToNode example_routing (Start example_routing 0) = depot example_data \<and>
   (\<exists>rep. print_solution example_data example_routing = Some rep \<and>
      indexes rep = [0, 2] \<and>
      dropped_nodes example_data (indexes rep) = {1, 3})"
proof -
  have s: "Start example_routing 0 = 0" by (simp add: example_routing_def)
  have p: "route_path example_routing (Start example_routing 0 # 2 # [4])"
    unfolding s by (rule route_path_example)
  have d: "IndexToNode example_routing (Start example_routing 0) = depot example_data"
    by (simp add: example_routing_def example_data_def)
  have len: "length (segments example_parts) = 4" by (simp add: segments_example)
  from C6_emitted_nodes[OF create_data_model_example p d] obtain rep where
    all: "print_solution example_data example_routing = Some rep \<and>
      indexes rep = 0 # map (IndexToNode example_routing) (butlast (2 # [4])) \<and>
      dropped_nodes example_data (indexes rep) =
        {0 ..< length (segments example_parts)} - set (indexes rep)" ..
  note rep = all[THEN conjunct1] all[THEN conjunct2, THEN conjunct1]
    all[THEN conjunct2, THEN conjunct2]
  from rep(2) have ix: "indexes rep = [0, 2]" by (simp add: example_routing_def)
  have diff: "{0 ..< 4} - set [0, 2] = {1, 3::nat}"
    unfolding atLeastLessThan_0_4 by auto
  have dn: "dropped_nodes example_data (indexes rep) = {1, 3}"
    using rep(3) unfolding ix len diff .
  have "\<exists>rep. print_solution example_data example_routing = Some rep \<and>
      indexes rep = [0, 2] \<and>
      dropped_nodes example_data (indexes rep) = {1, 3}"
  proof (intro exI conjI)
    show "print_solution example_data example_routing = Some rep" by (rule rep(1))
    show "indexes rep = [0, 2]" by (rule ix)
    show "dropped_nodes example_data (indexes rep) = {1, 3}" by (rule dn)
  qed
  with create_data_model_example p d show ?thesis by (intro conjI)
qed

text \<open>
  C1: the nodes 2k and 2k+1 are the forward and the reversed orientation of one segment,
  and a set of visited nodes that satisfies every disjunction registered by \<open>main\<close> never
  holds both of them.
\<close>

theorem C1_pair_exclusive:
  assumes "create_data_model R (segments parts) = Inr data"
    and "node_indices data r"
    and "disjunctions_hold (main_disjunctions data r) visited"
    and "2 * k + 1 < length (segments parts)"
  shows "\<exists>s. segments parts ! (2 * k) = Forward s \<and>
           segments parts ! (2 * k + 1) = ReversedSegment s \<and>
           \<not> (2 * k \<in> set visited \<and> 2 * k + 1 \<in> set visited)"
proof -
  from assms(4) have "2 * k + 1 < length (distance_matrix data)"
    by (simp add: create_data_model_Inr(1)[OF assms(1)])
  from main_disjunction_pair[OF assms(2) this assms(3)]
  have "\<not> (2 * k \<in> set visited \<and> 2 * k + 1 \<in> set visited)" by blast
  with segments_pair[OF assms(4)] show ?thesis by blast
qed

theorem C1_pair_exclusive_witness:
  "create_data_model exact_arith (segments example_parts) = Inr example_data \<and>
   node_indices example_data example_routing \<and>
   disjunctions_hold (main_disjunctions example_data example_routing) [0, 2] \<and>
   2 * 1 + 1 < length (segments example_parts) \<and>
   \<not> (2 * 1 \<in> set [0, 2::nat] \<and> 2 * 1 + 1 \<in> set [0, 2::nat])"
proof -
  have h: "disjunctions_hold (main_disjunctions example_data example_routing) [0, 2]"
    by (simp add: main_disjunctions_example disjunctions_hold_def disjunction_holds_pair)
  have k: "2 * 1 + 1 < length (segments example_parts)"
    by (simp add: segments_example)
  from C1_pair_exclusive[OF create_data_model_example node_indices_example h k]
  have "\<not> (2 * 1 \<in> set [0, 2::nat] \<and> 2 * 1 + 1 \<in> set [0, 2::nat])" by blast
  with create_data_model_example node_indices_example h k show ?thesis by blast
qed

text \<open>
  C4, as stated, at the example: the disjunction registered for the pair (2, 3) carries
  no penalty argument, so its penalty is the library's \<open>kNoPenalty\<close>, and the route that
  visits the depot only, omitting both 2 and 3, does not satisfy it.
\<close>

theorem C4_omitting_pair_counterexample:
  "main_disjunctions example_data example_routing =
     [AddDisjunction [0, 1], AddDisjunction [2, 3]] \<and>
   penalty (AddDisjunction [2, 3]) = - 1 \<and>
   \<not> disjunction_holds (AddDisjunction [2, 3]) [0] \<and>
   \<not> disjunctions_hold (main_disjunctions example_data example_routing) [0]"
  by (simp add: main_disjunctions_example disjunctions_hold_def disjunction_holds_pair)
     (simp add: AddDisjunction_def kNoPenalty_def)

text \<open>
  C4, amended: every disjunction registered by \<open>main\<close> has the penalty \<open>kNoPenalty\<close> and
  the cardinality 1, that is, it is a hard constraint with no drop cost; under it exactly
  one of the nodes 2k and 2k+1 is visited, so omitting both is not feasible.
\<close>

theorem C4_exactly_one_of_pair:
  assumes "create_data_model R (segments parts) = Inr data"
    and "node_indices data r"
    and "disjunctions_hold (main_disjunctions data r) visited"
    and "2 * k + 1 < length (segments parts)"
  shows "list_all (\<lambda>d. penalty d = kNoPenalty \<and> max_cardinality d = 1) (main_disjunctions data r) \<and>
         (2 * k \<in> set visited) = (2 * k + 1 \<notin> set visited)"
proof -
  from assms(4) have "2 * k + 1 < length (distance_matrix data)"
    by (simp add: create_data_model_Inr(1)[OF assms(1)])
  from main_disjunction_pair[OF assms(2) this assms(3)]
  have "(2 * k \<in> set visited) = (2 * k + 1 \<notin> set visited)" by blast
  moreover have "list_all (\<lambda>d. penalty d = kNoPenalty \<and> max_cardinality d = 1)
      (main_disjunctions data r)"
    by (simp add: main_disjunctions_def list_all_iff AddDisjunction_def)
  ultimately show ?thesis by blast
qed

theorem C4_exactly_one_of_pair_witness:
  "create_data_model exact_arith (segments example_parts) = Inr example_data \<and>
   node_indices example_data example_routing \<and>
   disjunctions_hold (main_disjunctions example_data example_routing) [0, 2] \<and>
   2 * 1 + 1 < length (segments example_parts) \<and>
   list_all (\<lambda>d. penalty d = kNoPenalty \<and> max_cardinality d = 1)
     (main_disjunctions example_data example_routing) \<and>
   (2 * 1 \<in> set [0, 2::nat]) = (2 * 1 + 1 \<notin> set [0, 2::nat])"
proof -
  have h: "disjunctions_hold (main_disjunctions example_data example_routing) [0, 2]"
    by (simp add: main_disjunctions_example disjunctions_hold_def disjunction_holds_pair)
  have k: "2 * 1 + 1 < length (segments example_parts)"
    by (simp add: segments_example)
  from C4_exactly_one_of_pair[OF create_data_model_example node_indices_example h k]
    create_data_model_example node_indices_example h k
  show ?thesis by blast
qed

text \<open>
  C5, at the example: the initial route that \<open>create_data_model\<close> builds is [1, 2, 3].
  It visits both 2 and 3, the two orientations of the second stroke, so together with the
  depot it does not satisfy the disjunctions that \<open>main\<close> registers: the route given to
  the solver as a starting point is not a feasible one.
\<close>

theorem C5_initial_route_infeasible:
  "create_data_model exact_arith (segments example_parts) = Inr example_data \<and>
   initial_routes example_data = [[1, 2, 3]] \<and>
   main_disjunctions example_data example_routing =
     [AddDisjunction [0, 1], AddDisjunction [2, 3]] \<and>
   \<not> disjunction_holds (AddDisjunction [2, 3]) (0 # [1, 2, 3]) \<and>
   \<not> disjunctions_hold (main_disjunctions example_data example_routing) (0 # [1, 2, 3])"
proof -
  have "initial_routes example_data = [[1, 2, 3]]" by (simp add: example_data_def)
  moreover have "\<not> disjunction_holds (AddDisjunction [2, 3]) (0 # [1, 2, 3])"
    by (simp add: disjunction_holds_pair)
  moreover have "\<not> disjunctions_hold (main_disjunctions example_data example_routing) (0 # [1, 2, 3])"
    by (simp add: main_disjunctions_example disjunctions_hold_def disjunction_holds_pair)
  ultimately show ?thesis
    using create_data_model_example main_disjunctions_example by (intro conjI)
qed

end
